theory Spec2Isabelle
  imports Main "HOL-Library.Word"
begin

unbundle bit_operations_syntax

text \<open>
  A shallow embedding of the parts of qsfs-fuse that its specification makes claims
  about: the file metadata and its permission check, the retry strategy of the client,
  and the operations of the \<open>Drive\<close> that delete directories, make files and read and
  write file content through the cache. Definitions come first, then the facts proved
  of them, one section for each claim.
\<close>

section \<open>Machine types and system constants\<close>

text \<open>
  The sources are C++11 built for 64-bit Linux. The fixed-width types of the code are
  words of the same width: \<open>+\<close>, \<open>-\<close> and \<open>*\<close> wrap around as unsigned arithmetic does,
  \<open>unat\<close> reads a word as unsigned, \<open>sint\<close> as two's complement.
\<close>

type_synonym uid_t = "32 word"
type_synonym gid_t = "32 word"
type_synonym mode_t = "32 word"
type_synonym dev_t = "64 word"
type_synonym time_t = "64 word"
type_synonym off_t = "64 word"
type_synonym size_t = "64 word"
type_synonym uint64_t = "64 word"

text \<open>The access modes of \<open>unistd.h\<close> and the mode bits of \<open>sys/stat.h\<close> (Linux values).\<close>

definition F_OK :: "32 word" where "F_OK = 0"
definition R_OK :: "32 word" where "R_OK = 4"
definition W_OK :: "32 word" where "W_OK = 2"
definition X_OK :: "32 word" where "X_OK = 1"

definition S_IRUSR :: mode_t where "S_IRUSR = 0x100"
definition S_IWUSR :: mode_t where "S_IWUSR = 0x80"
definition S_IXUSR :: mode_t where "S_IXUSR = 0x40"
definition S_IRGRP :: mode_t where "S_IRGRP = 0x20"
definition S_IWGRP :: mode_t where "S_IWGRP = 0x10"
definition S_IXGRP :: mode_t where "S_IXGRP = 0x8"
definition S_IROTH :: mode_t where "S_IROTH = 0x4"
definition S_IWOTH :: mode_t where "S_IWOTH = 0x2"
definition S_IXOTH :: mode_t where "S_IXOTH = 0x1"

definition S_IFMT :: mode_t where "S_IFMT = 0xF000"
definition S_IFSOCK :: mode_t where "S_IFSOCK = 0xC000"
definition S_IFLNK :: mode_t where "S_IFLNK = 0xA000"
definition S_IFREG :: mode_t where "S_IFREG = 0x8000"
definition S_IFBLK :: mode_t where "S_IFBLK = 0x6000"
definition S_IFDIR :: mode_t where "S_IFDIR = 0x4000"
definition S_IFCHR :: mode_t where "S_IFCHR = 0x2000"
definition S_IFIFO :: mode_t where "S_IFIFO = 0x1000"

text \<open>The file-type tests of \<open>sys/stat.h\<close>: what it means for a mode to denote a kind of file.\<close>

definition S_ISREG :: "mode_t \<Rightarrow> bool" where "S_ISREG m = (m AND S_IFMT = S_IFREG)"
definition S_ISBLK :: "mode_t \<Rightarrow> bool" where "S_ISBLK m = (m AND S_IFMT = S_IFBLK)"
definition S_ISCHR :: "mode_t \<Rightarrow> bool" where "S_ISCHR m = (m AND S_IFMT = S_IFCHR)"
definition S_ISFIFO :: "mode_t \<Rightarrow> bool" where "S_ISFIFO m = (m AND S_IFMT = S_IFIFO)"
definition S_ISSOCK :: "mode_t \<Rightarrow> bool" where "S_ISSOCK m = (m AND S_IFMT = S_IFSOCK)"

section \<open>FileMetaData (src/data/FileMetaData.cpp)\<close>

datatype FileType = File | Directory | SymLink | Block | Character | FIFO | Socket

record FileMetaData =
  m_filePath :: string
  m_fileSize :: uint64_t
  m_atime :: time_t
  m_mtime :: time_t
  m_ctime :: time_t
  m_cachedTime :: time_t
  m_uid :: uid_t
  m_gid :: gid_t
  m_fileMode :: mode_t
  m_fileType :: FileType
  m_mimeType :: string
  m_eTag :: string
  m_encrypted :: bool
  m_dev :: dev_t
  m_numLink :: int
  m_dirty :: bool
  m_write :: bool
  m_fileOpen :: bool
  m_pendingGet :: bool
  m_pendingCreate :: bool

text \<open>
  Modelled from the spec: \<open>QS::Utils::AppendPathDelim\<close>, declared in base/Utils.h
  (``Append delim to path'') and defined in base/Utils.cpp, which is not among the sources.
  The spec has directories ``canonically stored with a trailing \<open>/\<close>'' and the constructor
  ``normalizes the trailing slash'': the delimiter is appended when the path does not end
  with it already.
\<close>

definition AppendPathDelim :: "string \<Rightarrow> string" where
  "AppendPathDelim path =
     (if path \<noteq> [] \<and> last path = CHR ''/'' then path else path @ ''/'')"

text \<open>The constructor \<open>FileMetaData::FileMetaData\<close>: the initialiser list, then the body.\<close>

definition FileMetaData_ctor ::
  "string \<Rightarrow> uint64_t \<Rightarrow> time_t \<Rightarrow> time_t \<Rightarrow> uid_t \<Rightarrow> gid_t \<Rightarrow> mode_t \<Rightarrow> FileType \<Rightarrow>
   string \<Rightarrow> string \<Rightarrow> bool \<Rightarrow> dev_t \<Rightarrow> FileMetaData" where
  "FileMetaData_ctor filePath fileSize atime mtime uid gid fileMode fileType
                     mimeType eTag encrypted dev =
     (let this = \<lparr> m_filePath = filePath, m_fileSize = fileSize, m_atime = atime,
                   m_mtime = mtime, m_ctime = mtime, m_cachedTime = atime,
                   m_uid = uid, m_gid = gid, m_fileMode = fileMode,
                   m_fileType = fileType, m_mimeType = mimeType, m_eTag = eTag,
                   m_encrypted = encrypted, m_dev = dev, m_numLink = 1,
                   m_dirty = False, m_write = False, m_fileOpen = False,
                   m_pendingGet = False, m_pendingCreate = False \<rparr>;
          this = this\<lparr> m_numLink := (if fileType = Directory then 2 else 1) \<rparr>
      in if fileType = Directory
         then this\<lparr> m_filePath := AppendPathDelim (m_filePath this) \<rparr>
         else this)"

text \<open>
  \<open>FileMetaData::FileAccess\<close>. A C++ condition \<open>if (x & M)\<close> is \<open>x AND M \<noteq> 0\<close>. The
  branches are kept in the order of the source, the fourth one tested on \<open>W_OK\<close> as the
  source has it.
\<close>

definition FileAccess :: "FileMetaData \<Rightarrow> uid_t \<Rightarrow> gid_t \<Rightarrow> 32 word \<Rightarrow> bool" where
  "FileAccess this uid gid amode =
     (if m_filePath this = [] then False
      else if amode AND F_OK \<noteq> 0 then True
      else if amode AND R_OK \<noteq> 0 then
        (if (uid = m_uid this \<or> uid = 0) \<and> m_fileMode this AND S_IRUSR \<noteq> 0 then True
         else if (gid = m_gid this \<or> gid = 0) \<and> m_fileMode this AND S_IRGRP \<noteq> 0 then True
         else if m_fileMode this AND S_IROTH \<noteq> 0 then True
         else False)
      else if amode AND W_OK \<noteq> 0 then
        (if (uid = m_uid this \<or> uid = 0) \<and> m_fileMode this AND S_IWUSR \<noteq> 0 then True
         else if (gid = m_gid this \<or> gid = 0) \<and> m_fileMode this AND S_IWGRP \<noteq> 0 then True
         else if m_fileMode this AND S_IWOTH \<noteq> 0 then True
         else False)
      else if amode AND W_OK \<noteq> 0 then
        (if uid = 0 \<and> (m_fileMode this AND S_IXUSR \<noteq> 0 \<or> m_fileMode this AND S_IXGRP \<noteq> 0
                        \<or> m_fileMode this AND S_IXOTH \<noteq> 0) then True
         else if uid = m_uid this \<and> m_fileMode this AND S_IXUSR \<noteq> 0 then True
         else if gid = m_gid this \<and> m_fileMode this AND S_IXGRP \<noteq> 0 then True
         else if m_fileMode this AND S_IXOTH \<noteq> 0 then True
         else False)
      else False)"

text \<open>
  \<open>FileMetaData::MyDirName\<close>: the path up to and including the last \<open>/\<close> before the
  name, empty for the root and for a path without \<open>/\<close>; \<open>dirName_of\<close> is its body on the
  path alone. Modelled from the spec: \<open>IsRootDirectory\<close> is only declared (base/Utils.h),
  and the spec has ``the root is \<open>/\<close>''. On an empty path the source calls \<open>back()\<close>,
  which is undefined; the model gives the empty result there.
\<close>

definition IsRootDirectory :: "string \<Rightarrow> bool" where
  "IsRootDirectory path = (path = ''/'')"

definition dirName_of :: "string \<Rightarrow> string" where
  "dirName_of filePath =
     (if IsRootDirectory filePath then []
      else
        let cpy = (if filePath \<noteq> [] \<and> last filePath = CHR ''/'' then butlast filePath
                   else filePath)
        in rev (dropWhile (\<lambda>c. c \<noteq> CHR ''/'') (rev cpy)))"

definition MyDirName :: "FileMetaData \<Rightarrow> string" where
  "MyDirName this = dirName_of (m_filePath this)"

section \<open>RetryStrategy (src/client/RetryStrategy.cpp)\<close>

text \<open>
  \<open>ClientError<QSError>\<close> is declared in client/ClientError.h, which is not among the
  sources; the strategy reads nothing of it but its \<open>ShouldRetry()\<close> answer, the field
  \<open>m_isRetryable\<close> here.
\<close>

record ClientError =
  m_exceptionName :: string
  m_message :: string
  m_isRetryable :: bool

definition ClientError_ShouldRetry :: "ClientError \<Rightarrow> bool" where
  "ClientError_ShouldRetry error = m_isRetryable error"

record RetryStrategy =
  m_maxRetryTimes :: "32 word"
  m_scaleFactor :: "32 word"

definition ShouldRetry :: "RetryStrategy \<Rightarrow> ClientError \<Rightarrow> 32 word \<Rightarrow> bool" where
  "ShouldRetry this error attemptedRetryTimes =
     (if m_maxRetryTimes this \<le> attemptedRetryTimes then False
      else ClientError_ShouldRetry error)"

text \<open>
  \<open>CalculateDelayBeforeNextRetry\<close>. In \<open>(1 << attemptedRetryTimes) * m_scaleFactor\<close> the
  literal \<open>1\<close> is a 32-bit \<open>int\<close>: the shift is undefined for a count of 32 or more,
  for which the result \<open>None\<close> stands. At count 31 the shift gives the sign bit, which
  the conversion of the product to \<open>unsigned\<close> reads as \<open>2 ^ 31\<close>. The product is taken
  in \<open>unsigned\<close>, modulo \<open>2 ^ 32\<close>.
\<close>

definition CalculateDelayBeforeNextRetry ::
  "RetryStrategy \<Rightarrow> ClientError \<Rightarrow> 32 word \<Rightarrow> 32 word option" where
  "CalculateDelayBeforeNextRetry this error attemptedRetryTimes =
     (if attemptedRetryTimes = 0 then Some 0
      else if 32 \<le> unat attemptedRetryTimes then None
      else Some (push_bit (unat attemptedRetryTimes) 1 * m_scaleFactor this))"

section \<open>The collaborators of the Drive facade\<close>

text \<open>
  \<open>Drive\<close> (filesystem/Drive.cpp, the second part of src/data/FileMetaData.cpp) owns a
  directory tree, a cache, a client and a transfer manager. The classes \<open>Node\<close>,
  \<open>DirectoryTree\<close>, \<open>Cache\<close>, \<open>Client\<close> and \<open>TransferManager\<close> are declared in headers
  that are not among the sources. What their methods answer is not decided by \<open>Drive\<close>:
  the methods \<open>Drive\<close> calls are the fields of the record \<open>Collaborators\<close> below, over
  which every theorem is universally quantified.
\<close>

text \<open>
  Modelled from the spec: the class \<open>Node\<close>, a vertex of the directory tree that holds
  the metadata of a file, its children and its flags. Its header data/Directory.h is not
  among the sources; the older data/Directory.cpp among them (inside
  src/cmake/templates/config.cmake.in) has it hold an entry and a map of children. \<open>Drive\<close> reads and writes a node through its accessors only; the record has one
  field for each accessor that \<open>Drive\<close> calls, named after it (\<open>operator_bool\<close> is the
  test \<open>*node\<close>), and a setter is a record update.
\<close>

record Node =
  operator_bool :: bool
  IsDirectory :: bool
  IsEmpty :: bool
  GetFileSize :: uint64_t
  GetMTime :: time_t
  IsFileOpen :: bool
  IsNeedUpload :: bool

text \<open>
  Modelled from the spec: the class \<open>DirectoryTree\<close>, whose header data/Directory.h is
  not among the sources, with its index \<open>pathMap\<close> from paths to nodes. \<open>Find\<close> looks
  the path up in that index, as \<open>DirectoryTree::Find\<close> does in the older
  data/Directory.cpp that is among the sources (inside
  src/cmake/templates/config.cmake.in, where the index is called \<open>m_map\<close>). Nodes are
  shared objects: \<open>Drive\<close> holds a \<open>shared_ptr<Node>\<close> across calls that may change the
  tree. The tree is therefore a path map into a store of node objects, and a node
  pointer is an address in that store (\<open>None\<close> is the null pointer).
\<close>

record DirectoryTree =
  pathMap :: "(string \<times> nat) list"
  Nodes :: "nat \<Rightarrow> Node"

definition Find :: "DirectoryTree \<Rightarrow> string \<Rightarrow> nat option" where
  "Find tree path = map_of (pathMap tree) path"

text \<open>
  The requests that leave \<open>Drive\<close> for the object store, and how each is made: called and
  awaited by the calling thread (\<open>Sync\<close>), or handed to an executor with \<open>SubmitAsync\<close>
  or \<open>SubmitAsyncPrioritized\<close>. A submitted task runs later on another thread; the model
  records that it was submitted and does not run it. \<open>ReqStat path None\<close> is the call
  \<open>Stat(path)\<close>, \<open>ReqStat path (Some t)\<close> the call \<open>Stat(path, t, &modified)\<close>.
\<close>

datatype Request =
    ReqStat string "time_t option"
  | ReqListDirectory string
  | ReqMakeFile string
  | ReqDeleteDirectory string bool
  | ReqDownloadFile string off_t uint64_t

datatype Issue = Sync | SubmitAsync | SubmitAsyncPrioritized

type_synonym buffer = "8 word list option"

text \<open>The type \<open>'c\<close> is the state of the cache.\<close>

record 'c Collaborators =
  Client_Stat :: "string \<Rightarrow> time_t option \<Rightarrow> DirectoryTree \<Rightarrow> bool \<times> bool \<times> DirectoryTree"
  Client_MakeFile :: "string \<Rightarrow> bool"
  DirectoryTree_Grow :: "FileMetaData \<Rightarrow> DirectoryTree \<Rightarrow> DirectoryTree"
  Cache_HasFileData :: "'c \<Rightarrow> string \<Rightarrow> off_t \<Rightarrow> size_t \<Rightarrow> bool"
  Cache_GetUnloadedRanges :: "'c \<Rightarrow> string \<Rightarrow> uint64_t \<Rightarrow> (off_t \<times> size_t) list"
  Cache_Write :: "'c \<Rightarrow> string \<Rightarrow> off_t \<Rightarrow> size_t \<Rightarrow> buffer \<Rightarrow> time_t \<Rightarrow> bool \<times> 'c"
  Cache_Read :: "'c \<Rightarrow> string \<Rightarrow> off_t \<Rightarrow> size_t \<Rightarrow> buffer \<Rightarrow> Node \<Rightarrow> size_t \<times> buffer \<times> 'c"
  TransferManager_DownloadFile :: "string \<Rightarrow> off_t \<Rightarrow> uint64_t \<Rightarrow> buffer"
  GetMaxFileCacheSize :: size_t
  GetDefaultTransferMaxBufSize :: uint64_t
  time_NULL :: time_t
  GetProcessEffectiveUserID :: uid_t
  GetProcessEffectiveGroupID :: gid_t

text \<open>
  The fields answer as follows. \<open>Client_Stat path since tree\<close> is the HEAD request: it
  gives whether the returned error is good (\<open>IsGoodQSError\<close>), the value left in
  \<open>modified\<close>, and the tree after the client has recorded what it learnt.
  \<open>Client_MakeFile\<close> gives whether the error is good; by the comment in \<open>Drive::MakeFile\<close>
  it does not touch the tree. \<open>Cache_Write\<close> gives its success flag and the cache after;
  \<open>Cache_Read\<close> the number of bytes it produced, the caller's buffer after, and the
  cache after. \<open>TransferManager_DownloadFile\<close> gives \<open>None\<close> for a null handle and
  otherwise the stream once \<open>WaitUntilFinished\<close> has returned.
\<close>

record 'c Drive =
  m_directoryTree :: DirectoryTree
  m_cache :: "'c"
  issued :: "(Issue \<times> Request) list"

definition issue :: "Issue \<Rightarrow> Request \<Rightarrow> 'c Drive \<Rightarrow> 'c Drive" where
  "issue how req this = this\<lparr> issued := issued this @ [(how, req)] \<rparr>"

definition deref :: "'c Drive \<Rightarrow> nat \<Rightarrow> Node" where
  "deref this a = Nodes (m_directoryTree this) a"

definition store :: "nat \<Rightarrow> Node \<Rightarrow> 'c Drive \<Rightarrow> 'c Drive" where
  "store a n this =
     this\<lparr> m_directoryTree :=
             (m_directoryTree this)\<lparr> Nodes := (Nodes (m_directoryTree this))(a := n) \<rparr> \<rparr>"

section \<open>Drive::GetNode\<close>

definition GetNode ::
  "'c Collaborators \<Rightarrow> 'c Drive \<Rightarrow> string \<Rightarrow> bool \<Rightarrow> (nat option \<times> bool) \<times> 'c Drive" where
  "GetNode w this path updateIfDirectory =
     (if path = [] then ((None, False), this)
      else
        let (node, modified, this1) =
              (case Find (m_directoryTree this) path of
                 Some a \<Rightarrow>
                   let modifiedSince = GetMTime (deref this a);
                       (good, modified, tree) =
                          Client_Stat w path (Some modifiedSince) (m_directoryTree this)
                   in (Some a, modified,
                       issue Sync (ReqStat path (Some modifiedSince))
                         (this\<lparr> m_directoryTree := tree \<rparr>))
               | None \<Rightarrow>
                   let (good, unused, tree) = Client_Stat w path None (m_directoryTree this)
                   in ((if good then Find tree path else None), False,
                       issue Sync (ReqStat path None) (this\<lparr> m_directoryTree := tree \<rparr>)));
            this2 =
              (case node of
                 None \<Rightarrow> this1
               | Some a \<Rightarrow>
                   if operator_bool (deref this1 a) \<and> IsDirectory (deref this1 a)
                      \<and> updateIfDirectory \<and> modified
                   then issue SubmitAsync (ReqListDirectory (AppendPathDelim path)) this1
                   else this1)
        in ((node, modified), this2))"

section \<open>Drive::DeleteDir\<close>

definition DeleteDir :: "'c Collaborators \<Rightarrow> 'c Drive \<Rightarrow> string \<Rightarrow> bool \<Rightarrow> bool \<Rightarrow> 'c Drive" where
  "DeleteDir w this dirPath recursive doCheck =
     (if dirPath = [] then this
      else
        let path = AppendPathDelim dirPath in
        if doCheck then
          (let (res, this1) = GetNode w this path True
           in case fst res of
                None \<Rightarrow> this1
              | Some node \<Rightarrow>
                  if \<not> operator_bool (deref this1 node) then this1
                  else if \<not> IsDirectory (deref this1 node) then this1
                  else if \<not> IsEmpty (deref this1 node) then this1
                  else issue SubmitAsyncPrioritized (ReqDeleteDirectory path recursive) this1)
        else issue SubmitAsyncPrioritized (ReqDeleteDirectory path recursive) this)"

section \<open>Drive::MakeFile\<close>

text \<open>The chain of tests that chooses the local variable \<open>type\<close>; \<open>None\<close> is its last
  branch, which warns and returns.\<close>

definition MakeFile_type :: "mode_t \<Rightarrow> FileType option" where
  "MakeFile_type mode =
     (if mode AND S_IFREG \<noteq> 0 then Some File
      else if mode AND S_IFBLK \<noteq> 0 then Some Block
      else if mode AND S_IFCHR \<noteq> 0 then Some Character
      else if mode AND S_IFIFO \<noteq> 0 then Some FIFO
      else if mode AND S_IFSOCK \<noteq> 0 then Some Socket
      else None)"

text \<open>The \<open>assert\<close> on the path is compiled out in a release build; the test after it
  then returns on an empty path.\<close>

definition MakeFile :: "'c Collaborators \<Rightarrow> 'c Drive \<Rightarrow> string \<Rightarrow> mode_t \<Rightarrow> dev_t \<Rightarrow> 'c Drive" where
  "MakeFile w this filePath mode dev =
     (if filePath = [] then this
      else case MakeFile_type mode of
        None \<Rightarrow> this
      | Some type \<Rightarrow>
          if type = File then
            (let good = Client_MakeFile w filePath;
                 this1 = issue Sync (ReqMakeFile filePath) this
             in if \<not> good then this1
                else issue SubmitAsyncPrioritized (ReqStat filePath None) this1)
          else
            (let mtime = time_NULL w
             in this\<lparr> m_directoryTree :=
                  DirectoryTree_Grow w
                    (FileMetaData_ctor filePath 0 mtime mtime (GetProcessEffectiveUserID w)
                       (GetProcessEffectiveGroupID w) mode type [] [] False dev)
                    (m_directoryTree this) \<rparr>))"

section \<open>Drive::DownloadFileContentRanges\<close>

text \<open>
  The \<open>while\<close> loop of the lambda \<open>DownloadRange\<close>; its locals \<open>offset_\<close> and
  \<open>downloadSize_\<close> are written with a prime here. \<open>downloadSize_\<close> is an \<open>int64_t\<close>,
  so its test against zero reads the word as signed. With \<open>async\<close> the download is
  submitted to the executor; without it the download is awaited and its callback, which
  writes the stream into the cache, runs at once.
\<close>

function DownloadRange_loop ::
  "'c Collaborators \<Rightarrow> string \<Rightarrow> bool \<Rightarrow> time_t \<Rightarrow> off_t \<Rightarrow> size_t \<Rightarrow> uint64_t \<Rightarrow>
   'c Drive \<Rightarrow> 'c Drive" where
  "DownloadRange_loop w filePath async mtime offset remainingSize downloadedSize this =
     (if 0 < remainingSize then
        (let bufSize = GetDefaultTransferMaxBufSize w;
             offset' = offset + downloadedSize;
             downloadSize' = (if bufSize < remainingSize then bufSize else remainingSize)
         in if sint downloadSize' \<le> 0 then this
            else
              DownloadRange_loop w filePath async mtime offset
                (remainingSize - downloadSize') (downloadedSize + downloadSize')
                (if async
                 then issue SubmitAsync (ReqDownloadFile filePath offset' downloadSize') this
                 else
                   (case TransferManager_DownloadFile w filePath offset' downloadSize' of
                      None \<Rightarrow> issue Sync (ReqDownloadFile filePath offset' downloadSize') this
                    | Some stream \<Rightarrow>
                        (issue Sync (ReqDownloadFile filePath offset' downloadSize') this)
                          \<lparr> m_cache := snd (Cache_Write w (m_cache this) filePath offset'
                                              downloadSize' (Some stream) mtime) \<rparr>)))
      else this)"
  by pat_completeness auto

definition DownloadRange ::
  "'c Collaborators \<Rightarrow> string \<Rightarrow> bool \<Rightarrow> time_t \<Rightarrow> off_t \<times> size_t \<Rightarrow> 'c Drive \<Rightarrow> 'c Drive" where
  "DownloadRange w filePath async mtime r this =
     (let offset = fst r; size = snd r;
          fileContentExist = Cache_HasFileData w (m_cache this) filePath offset size
      in if \<not> fileContentExist
         then DownloadRange_loop w filePath async mtime offset size 0 this
         else this)"

definition DownloadFileContentRanges ::
  "'c Collaborators \<Rightarrow> 'c Drive \<Rightarrow> string \<Rightarrow> (off_t \<times> size_t) list \<Rightarrow> time_t \<Rightarrow> bool \<Rightarrow>
   'c Drive" where
  "DownloadFileContentRanges w this filePath ranges mtime async =
     foldl (\<lambda>drive r. DownloadRange w filePath async mtime r drive) this ranges"

section \<open>Drive::ReadFile and Drive::WriteFile\<close>

text \<open>
  Both return \<open>None\<close> where the source dereferences a null node pointer, which it does
  when the node is missing and \<open>doCheck\<close> is off. \<open>ReadFile\<close> gives the returned count,
  the caller's buffer after the call and the drive after the call. The sum
  \<open>offset + size\<close> of an \<open>off_t\<close> and a \<open>size_t\<close> is unsigned, as is its comparison with the
  file size; \<open>remainingSize\<close> is an \<open>int64_t\<close> and is compared as signed.
\<close>

definition ReadFile ::
  "'c Collaborators \<Rightarrow> 'c Drive \<Rightarrow> string \<Rightarrow> off_t \<Rightarrow> size_t \<Rightarrow> buffer \<Rightarrow> bool \<Rightarrow>
   (size_t \<times> buffer \<times> 'c Drive) option" where
  "ReadFile w this filePath offset size' buf doCheck =
     (if doCheck \<and> (filePath = [] \<or> buf = None) then Some (0, buf, this)
      else if GetMaxFileCacheSize w < size' then Some (0, buf, this)
      else
        let (res, this1) = GetNode w this filePath False;
            modified = snd res
        in case fst res of
             None \<Rightarrow> if doCheck then Some (0, buf, this1) else None
           | Some node \<Rightarrow>
               if doCheck \<and> \<not> operator_bool (deref this1 node) then Some (0, buf, this1)
               else if doCheck \<and> IsDirectory (deref this1 node) then Some (0, buf, this1)
               else
                 let fileSize = GetFileSize (deref this1 node);
                     downloadSize =
                       (if fileSize < offset + size' then fileSize - offset else size');
                     remainingSize =
                       (if fileSize < offset + size' then 0 else fileSize - (offset + size'));
                     fileContentExist = Cache_HasFileData w (m_cache this1) filePath offset size';
                     mtime = GetMTime (deref this1 node);
                     this2 =
                       (if \<not> fileContentExist \<or> modified then
                          (case TransferManager_DownloadFile w filePath offset downloadSize of
                             None \<Rightarrow> issue Sync (ReqDownloadFile filePath offset downloadSize) this1
                           | Some stream \<Rightarrow>
                               (issue Sync (ReqDownloadFile filePath offset downloadSize) this1)
                                 \<lparr> m_cache := snd (Cache_Write w (m_cache this1) filePath offset
                                                     downloadSize (Some stream) mtime) \<rparr>)
                        else this1);
                     this3 =
                       (if 0 < sint remainingSize then
                          DownloadFileContentRanges w this2 filePath
                            (Cache_GetUnloadedRanges w (m_cache this2) filePath fileSize)
                            mtime True
                        else this2);
                     (n, buf', cache') =
                        Cache_Read w (m_cache this3) filePath offset downloadSize buf
                          (deref this3 node)
                 in Some (n, buf', this3\<lparr> m_cache := cache' \<rparr>))"

text \<open>
  \<open>WriteFile\<close> is declared to return \<open>int\<close>: the \<open>size_t\<close> value of
  \<open>success ? size : 0\<close> is converted to 32 bits on return (\<open>ucast\<close>). The parameter
  \<open>size\<close> of both functions is written \<open>size'\<close>.
\<close>

definition WriteFile ::
  "'c Collaborators \<Rightarrow> 'c Drive \<Rightarrow> string \<Rightarrow> off_t \<Rightarrow> size_t \<Rightarrow> buffer \<Rightarrow> bool \<Rightarrow>
   (32 word \<times> 'c Drive) option" where
  "WriteFile w this filePath offset size' buf doCheck =
     (if doCheck \<and> (filePath = [] \<or> buf = None) then Some (0, this)
      else if GetMaxFileCacheSize w < size' then Some (0, this)
      else
        let (res, this1) = GetNode w this filePath False
        in case fst res of
             None \<Rightarrow> if doCheck then Some (0, this1) else None
           | Some node \<Rightarrow>
               if doCheck \<and> \<not> operator_bool (deref this1 node) then Some (0, this1)
               else if doCheck \<and> IsDirectory (deref this1 node) then Some (0, this1)
               else if \<not> IsFileOpen (deref this1 node) then Some (0, this1)
               else
                 let (success, cache') =
                        Cache_Write w (m_cache this1) filePath offset size' buf (time_NULL w);
                     this2 = this1\<lparr> m_cache := cache' \<rparr>
                 in if success then
                      (let this3 = store node ((deref this2 node)\<lparr> IsNeedUpload := True \<rparr>) this2;
                           this4 =
                             (if GetFileSize (deref this3 node) < offset + size'
                              then store node
                                     ((deref this3 node)\<lparr> GetFileSize := offset + size' \<rparr>) this3
                              else this3)
                       in Some (ucast size', this4))
                    else Some (0, this2))"

section \<open>A sequence of writes\<close>

text \<open>A sequence of \<open>WriteFile\<close> calls on one path, each given by its offset, size, buffer
  and check flag; the drive of one call is handed to the next.\<close>

fun WriteFile_calls ::
  "'c Collaborators \<Rightarrow> 'c Drive \<Rightarrow> string \<Rightarrow> (off_t \<times> size_t \<times> buffer \<times> bool) list \<Rightarrow>
   'c Drive option" where
  "WriteFile_calls w this filePath [] = Some this"
| "WriteFile_calls w this filePath ((offset, size', buf, doCheck) # calls) =
     (case WriteFile w this filePath offset size' buf doCheck of
        None \<Rightarrow> None
      | Some (n, this') \<Rightarrow> WriteFile_calls w this' filePath calls)"

section \<open>Concrete collaborators and a concrete drive\<close>

text \<open>
  Modelled from the spec: the page cache (data/Cache.cpp is not among the sources), for
  the concrete runs only. The spec has it hold, for each file, byte ranges of its
  content; \<open>hasFileData\<close> is true when the range is fully covered, \<open>getUnloadedRanges\<close>
  is the ordered complement of the cached ranges within the file, \<open>write\<close> inserts the
  bytes and \<open>read\<close> copies from the pages and returns the bytes actually produced. Here
  a file's pages are a partial map from byte positions to bytes.
\<close>

type_synonym PageCache = "string \<Rightarrow> nat \<Rightarrow> 8 word option"

fun put_bytes :: "(nat \<Rightarrow> 8 word option) \<Rightarrow> nat \<Rightarrow> 8 word list \<Rightarrow> (nat \<Rightarrow> 8 word option)" where
  "put_bytes f i [] = f"
| "put_bytes f i (b # bs) = put_bytes (f(i \<mapsto> b)) (Suc i) bs"

fun get_bytes :: "(nat \<Rightarrow> 8 word option) \<Rightarrow> nat \<Rightarrow> nat \<Rightarrow> 8 word list" where
  "get_bytes f i 0 = []"
| "get_bytes f i (Suc n) = (case f i of None \<Rightarrow> [] | Some b \<Rightarrow> b # get_bytes f (Suc i) n)"

fun unloaded :: "(nat \<Rightarrow> 8 word option) \<Rightarrow> nat \<Rightarrow> nat \<Rightarrow> (nat \<times> nat) list" where
  "unloaded f i 0 = []"
| "unloaded f i (Suc n) =
     (case f i of
        Some b \<Rightarrow> unloaded f (Suc i) n
      | None \<Rightarrow>
          (case unloaded f (Suc i) n of
             [] \<Rightarrow> [(i, 1)]
           | (j, m) # rest \<Rightarrow> if j = Suc i then (i, Suc m) # rest else (i, 1) # (j, m) # rest))"

definition example_HasFileData :: "PageCache \<Rightarrow> string \<Rightarrow> off_t \<Rightarrow> size_t \<Rightarrow> bool" where
  "example_HasFileData c path offset len =
     (length (get_bytes (c path) (unat offset) (unat len)) = unat len)"

definition example_GetUnloadedRanges ::
  "PageCache \<Rightarrow> string \<Rightarrow> uint64_t \<Rightarrow> (off_t \<times> size_t) list" where
  "example_GetUnloadedRanges c path fileSize =
     map (\<lambda>(i, n). (of_nat i, of_nat n)) (unloaded (c path) 0 (unat fileSize))"

definition example_Write ::
  "PageCache \<Rightarrow> string \<Rightarrow> off_t \<Rightarrow> size_t \<Rightarrow> buffer \<Rightarrow> time_t \<Rightarrow> bool \<times> PageCache" where
  "example_Write c path offset len buf mtime =
     (case buf of
        None \<Rightarrow> (False, c)
      | Some bytes \<Rightarrow>
          if length bytes < unat len then (False, c)
          else (True, c(path := put_bytes (c path) (unat offset) (take (unat len) bytes))))"

definition example_Read ::
  "PageCache \<Rightarrow> string \<Rightarrow> off_t \<Rightarrow> size_t \<Rightarrow> buffer \<Rightarrow> Node \<Rightarrow> size_t \<times> buffer \<times> PageCache" where
  "example_Read c path offset len buf node =
     (let bytes = get_bytes (c path) (unat offset) (unat len)
      in (of_nat (length bytes), Some bytes, c))"

text \<open>
  \<open>DirectoryTree::Grow\<close>, for the concrete runs only. The data/Directory.cpp that belongs
  to this \<open>Drive\<close> is not among the sources; an older one is (inside
  src/cmake/templates/config.cmake.in), and \<open>example_Grow\<close> follows its \<open>Grow\<close> on the
  accessor view of the nodes. When a node exists at the path of the metadata its entry
  is replaced and its children stay. Otherwise a fresh node is created and entered in
  the path map; it is inserted into its parent, when the parent is in the map, so that
  the parent is no longer empty; and when it is a directory it takes as children the
  nodes recorded under its path (the older source keeps them in
  \<open>m_parentToChildrenMap\<close>; here they are the entries of the path map whose directory
  name is the path). Modelled from the spec: what the accessors of the fresh node
  answer, read off its metadata.
\<close>

definition node_of_meta :: "FileMetaData \<Rightarrow> Node" where
  "node_of_meta meta =
     \<lparr> operator_bool = (m_filePath meta \<noteq> []), IsDirectory = (m_fileType meta = Directory),
       IsEmpty = True, GetFileSize = m_fileSize meta, GetMTime = m_mtime meta,
       IsFileOpen = m_fileOpen meta, IsNeedUpload = False \<rparr>"

definition example_Grow :: "FileMetaData \<Rightarrow> DirectoryTree \<Rightarrow> DirectoryTree" where
  "example_Grow fileMeta tree =
     (let filePath = m_filePath fileMeta in
      case Find tree filePath of
        Some a \<Rightarrow>
          tree\<lparr> Nodes := (Nodes tree)
                 (a := (node_of_meta fileMeta)\<lparr> IsEmpty := IsEmpty (Nodes tree a) \<rparr>) \<rparr>
      | None \<Rightarrow>
          let isDir = (m_fileType fileMeta = Directory);
              dirName = MyDirName fileMeta;
              a = Suc (fold max (map snd (pathMap tree)) 0);
              children = filter (\<lambda>(path, c). dirName_of path = filePath) (pathMap tree);
              node = (node_of_meta fileMeta)\<lparr> IsEmpty := \<not> (isDir \<and> children \<noteq> []) \<rparr>;
              nodes = (Nodes tree)(a := node);
              nodes' =
                (case map_of ((filePath, a) # pathMap tree) dirName of
                   None \<Rightarrow> nodes
                 | Some parent \<Rightarrow> nodes(parent := (nodes parent)\<lparr> IsEmpty := False \<rparr>))
          in tree\<lparr> pathMap := (filePath, a) # pathMap tree, Nodes := nodes' \<rparr>)"

text \<open>
  Modelled from the spec: an object store that holds exactly the objects of the tree and
  has not changed since they were listed. A HEAD succeeds on the paths of the tree,
  reports nothing modified and leaves the tree alone; a create succeeds; a download
  delivers the bytes of the object that lie in the requested range.
\<close>

definition example_objects :: "string \<Rightarrow> 8 word list" where
  "example_objects path =
     (if path = ''/docs/hello.txt'' then [0x68, 0x65, 0x6C, 0x6C, 0x6F]
      else if path = ''/closed.txt'' then [0x61, 0x62, 0x63]
      else [])"

definition example_world :: "PageCache Collaborators" where
  "example_world =
     \<lparr> Client_Stat = (\<lambda>path since tree. (Find tree path \<noteq> None, False, tree)),
       Client_MakeFile = (\<lambda>path. True),
       DirectoryTree_Grow = example_Grow,
       Cache_HasFileData = example_HasFileData,
       Cache_GetUnloadedRanges = example_GetUnloadedRanges,
       Cache_Write = example_Write,
       Cache_Read = example_Read,
       TransferManager_DownloadFile =
         (\<lambda>path offset len. Some (take (unat len) (drop (unat offset) (example_objects path)))),
       GetMaxFileCacheSize = 0x6400000,
       GetDefaultTransferMaxBufSize = 0xA00000,
       time_NULL = 1500000000,
       GetProcessEffectiveUserID = 1000,
       GetProcessEffectiveGroupID = 1000 \<rparr>"

text \<open>
  A drive with a root, a directory \<open>/docs/\<close> that holds the open five-byte file
  \<open>/docs/hello.txt\<close>, whose content is cached, an empty directory \<open>/empty/\<close> and a
  file \<open>/closed.txt\<close> that is not open.
\<close>

definition example_node :: "bool \<Rightarrow> bool \<Rightarrow> uint64_t \<Rightarrow> bool \<Rightarrow> Node" where
  "example_node dir childless len opened =
     \<lparr> operator_bool = True, IsDirectory = dir, IsEmpty = childless, GetFileSize = len,
       GetMTime = 1400000000, IsFileOpen = opened, IsNeedUpload = False \<rparr>"

definition example_drive :: "PageCache Drive" where
  "example_drive =
     \<lparr> m_directoryTree =
         \<lparr> pathMap = [(''/'', 0), (''/docs/'', 1), (''/docs/hello.txt'', 2), (''/empty/'', 3),
                       (''/closed.txt'', 4)],
           Nodes = (\<lambda>a. if a = 0 then example_node True False 0 False
                         else if a = 1 then example_node True False 0 False
                         else if a = 2 then example_node False True 5 True
                         else if a = 3 then example_node True True 0 False
                         else example_node False True 3 False) \<rparr>,
       m_cache = (\<lambda>path. if path = ''/docs/hello.txt''
                          then put_bytes (\<lambda>i. None) 0 [0x68, 0x65, 0x6C, 0x6C, 0x6F]
                          else (\<lambda>i. None)),
       issued = [] \<rparr>"

section \<open>Termination of the download loop\<close>

text \<open>Each round of the loop takes a positive number of bytes off \<open>remainingSize\<close>.\<close>

lemma DownloadRange_loop_decreases:
  fixes remainingSize d :: "64 word"
  assumes "d \<le> remainingSize" and "\<not> sint d \<le> 0"
  shows "unat (remainingSize - d) < unat remainingSize"
proof -
  from assms(2) have "d \<noteq> 0" by auto
  then have pos: "0 < unat d" by (simp add: unat_gt_0)
  from assms(1) have "unat (remainingSize - d) = unat remainingSize - unat d"
    by (rule unat_sub)
  moreover from assms(1) have "unat d \<le> unat remainingSize" by (simp add: word_le_nat_alt)
  ultimately show ?thesis using pos by linarith
qed

termination DownloadRange_loop
proof (relation "measure (\<lambda>(w, filePath, async, mtime, offset, remainingSize, rest).
                            unat remainingSize)", goal_cases)
  case 1
  show ?case by simp
next
  case (2 w filePath async mtime offset remainingSize downloadedSize this bufSize offset' d)
  have "d \<le> remainingSize" using 2 by (auto split: if_splits)
  moreover have "\<not> sint d \<le> 0" using 2 by simp
  ultimately have "unat (remainingSize - d) < unat remainingSize"
    by (rule DownloadRange_loop_decreases)
  then show ?case by simp
qed

section \<open>Permission check\<close>

text \<open>
  C1. In \<open>FileMetaData::FileAccess\<close> the branch that checks the execute bits is tested on
  \<open>amode & W_OK\<close>, not on \<open>amode & X_OK\<close>. Hence for every file, uid, gid and access mode
  that has \<open>X_OK\<close> set and \<open>F_OK\<close>, \<open>R_OK\<close>, \<open>W_OK\<close> all clear, \<open>FileAccess\<close> returns
  false, whatever the mode bits of the file are.
\<close>

theorem FileAccess_execute_only_denied:
  assumes "amode AND X_OK \<noteq> 0" and "amode AND F_OK = 0"
    and "amode AND R_OK = 0" and "amode AND W_OK = 0"
  shows "FileAccess this uid gid amode = False"
  using assms by (simp add: FileAccess_def)

theorem FileAccess_execute_only_denied_witness:
  "(1::32 word) AND X_OK \<noteq> 0 \<and> (1::32 word) AND F_OK = 0 \<and> (1::32 word) AND R_OK = 0
   \<and> (1::32 word) AND W_OK = 0
   \<and> FileAccess (FileMetaData_ctor ''/bin/tool'' 10 0 0 1000 1000 0x1FF File [] [] False 0)
        1000 1000 1 = False"
proof -
  have x: "(1::32 word) AND X_OK \<noteq> 0" by (simp add: X_OK_def)
  have f: "(1::32 word) AND F_OK = 0" by (simp add: F_OK_def)
  have r: "(1::32 word) AND R_OK = 0" by (simp add: R_OK_def)
  have w: "(1::32 word) AND W_OK = 0" by (simp add: W_OK_def)
  from FileAccess_execute_only_denied [OF x f r w] x f r w show ?thesis by blast
qed

section \<open>Retry policy\<close>

text \<open>
  C3. \<open>RetryStrategy::ShouldRetry(e, n)\<close> is true exactly when \<open>n\<close> is below
  \<open>m_maxRetryTimes\<close> and the error is retryable. So an error that is not retryable is
  never retried, and nothing is retried once \<open>n\<close> has reached \<open>m_maxRetryTimes\<close>.
\<close>

theorem ShouldRetry_iff:
  "ShouldRetry this error n = (n < m_maxRetryTimes this \<and> ClientError_ShouldRetry error)"
  by (auto simp add: ShouldRetry_def)

text \<open>
  C2, as the claim states it: the delay is \<open>(1 << attempt) * scaleFactor\<close> for every
  attempt from 0 on, so that three retries wait 1, 2 and 4 times the scale factor. The
  source returns 0 for attempt 0: with the default scale factor 25 the first delay is 0,
  not 25.
\<close>

theorem CalculateDelayBeforeNextRetry_first_attempt_counterexample:
  "CalculateDelayBeforeNextRetry \<lparr>m_maxRetryTimes = 3, m_scaleFactor = 25\<rparr>
      \<lparr>m_exceptionName = ''RequestExpired'', m_message = [], m_isRetryable = True\<rparr> 0
     \<noteq> Some (push_bit 0 1 * 25)"
  by (simp add: CalculateDelayBeforeNextRetry_def)

text \<open>
  C2, amended. The delay before the first retry (attempt 0) is 0. For every attempt from
  1 to 30 the delay is \<open>(1 << attempt) * scaleFactor\<close>, taken modulo \<open>2 ^ 32\<close>. With three
  retries allowed and a retryable error, the attempts that are retried are 0, 1 and 2,
  and their delays are 0, 2 and 4 times the scale factor.
\<close>

theorem CalculateDelayBeforeNextRetry_backoff:
  "CalculateDelayBeforeNextRetry this error 0 = Some 0
   \<and> (0 < n \<and> unat n < 31 \<longrightarrow>
        CalculateDelayBeforeNextRetry this error n = Some (2 ^ unat n * m_scaleFactor this))
   \<and> (m_maxRetryTimes this = 3 \<and> ClientError_ShouldRetry error \<longrightarrow>
        filter (ShouldRetry this error) [0, 1, 2, 3] = [0, 1, 2]
        \<and> map (CalculateDelayBeforeNextRetry this error) [0, 1, 2]
            = [Some 0, Some (2 * m_scaleFactor this), Some (4 * m_scaleFactor this)])"
  by (auto simp add: CalculateDelayBeforeNextRetry_def ShouldRetry_def push_bit_eq_mult
        word_le_nat_alt)

theorem CalculateDelayBeforeNextRetry_backoff_witness:
  "(0::32 word) < 5 \<and> unat (5::32 word) < 31
   \<and> CalculateDelayBeforeNextRetry \<lparr>m_maxRetryTimes = 3, m_scaleFactor = 25\<rparr>
        \<lparr>m_exceptionName = ''RequestExpired'', m_message = [], m_isRetryable = True\<rparr> 5
       = Some 800
   \<and> ClientError_ShouldRetry
        \<lparr>m_exceptionName = ''RequestExpired'', m_message = [], m_isRetryable = True\<rparr>
   \<and> map (CalculateDelayBeforeNextRetry \<lparr>m_maxRetryTimes = 3, m_scaleFactor = 25\<rparr>
        \<lparr>m_exceptionName = ''RequestExpired'', m_message = [], m_isRetryable = True\<rparr>)
        [0, 1, 2] = [Some 0, Some 50, Some 100]"
  using CalculateDelayBeforeNextRetry_backoff
          [of "\<lparr>m_maxRetryTimes = 3, m_scaleFactor = 25\<rparr>"
              "\<lparr>m_exceptionName = ''RequestExpired'', m_message = [], m_isRetryable = True\<rparr>"
              5]
  by (simp add: ClientError_ShouldRetry_def)

section \<open>Construction of the metadata\<close>

text \<open>
  C9. A \<open>FileMetaData\<close> constructed with file type \<open>Directory\<close> stores a path that ends
  with \<open>/\<close> (the given path, with the slash appended when it does not end with one) and
  has link count 2. Constructed with any other file type it stores the path unchanged
  and has link count 1.
\<close>

theorem FileMetaData_ctor_path_and_links:
  "(fileType = Directory \<longrightarrow>
      m_filePath (FileMetaData_ctor filePath fileSize atime mtime uid gid fileMode fileType
                    mimeType eTag encrypted dev)
        = (if filePath \<noteq> [] \<and> last filePath = CHR ''/'' then filePath else filePath @ ''/'')
      \<and> m_filePath (FileMetaData_ctor filePath fileSize atime mtime uid gid fileMode fileType
                       mimeType eTag encrypted dev) \<noteq> []
      \<and> last (m_filePath (FileMetaData_ctor filePath fileSize atime mtime uid gid fileMode
                             fileType mimeType eTag encrypted dev)) = CHR ''/''
      \<and> m_numLink (FileMetaData_ctor filePath fileSize atime mtime uid gid fileMode fileType
                      mimeType eTag encrypted dev) = 2)
   \<and> (fileType \<noteq> Directory \<longrightarrow>
      m_filePath (FileMetaData_ctor filePath fileSize atime mtime uid gid fileMode fileType
                    mimeType eTag encrypted dev) = filePath
      \<and> m_numLink (FileMetaData_ctor filePath fileSize atime mtime uid gid fileMode fileType
                      mimeType eTag encrypted dev) = 1)"
  by (simp add: FileMetaData_ctor_def AppendPathDelim_def Let_def)

theorem FileMetaData_ctor_path_and_links_witness:
  "m_filePath (FileMetaData_ctor ''/photos'' 0 7 7 1000 1000 0x1ED Directory [] [] False 0)
     = ''/photos/''
   \<and> m_numLink (FileMetaData_ctor ''/photos'' 0 7 7 1000 1000 0x1ED Directory [] [] False 0) = 2
   \<and> File \<noteq> Directory
   \<and> m_filePath (FileMetaData_ctor ''/photos/a.jpg'' 9 7 7 1000 1000 0x1A4 File [] [] False 0)
     = ''/photos/a.jpg''
   \<and> m_numLink (FileMetaData_ctor ''/photos/a.jpg'' 9 7 7 1000 1000 0x1A4 File [] [] False 0) = 1"
  using FileMetaData_ctor_path_and_links
          [of Directory "''/photos''" 0 7 7 1000 1000 "0x1ED" "[]" "[]" False 0]
        FileMetaData_ctor_path_and_links
          [of File "''/photos/a.jpg''" 9 7 7 1000 1000 "0x1A4" "[]" "[]" False 0]
  by simp

section \<open>The drive state under the bookkeeping operations\<close>

lemma m_cache_issue [simp]: "m_cache (issue how req this) = m_cache this"
  by (simp add: issue_def)

lemma tree_issue [simp]: "m_directoryTree (issue how req this) = m_directoryTree this"
  by (simp add: issue_def)

lemma deref_issue [simp]: "deref (issue how req this) a = deref this a"
  by (simp add: deref_def)

lemma issued_issue [simp]: "issued (issue how req this) = issued this @ [(how, req)]"
  by (simp add: issue_def)


lemma deref_store [simp]: "deref (store a n this) b = (if b = a then n else deref this b)"
  by (simp add: deref_def store_def)

lemma deref_cache_update [simp]: "deref (this\<lparr> m_cache := c \<rparr>) a = deref this a"
  by (simp add: deref_def)

lemma store_store [simp]: "store a n (store a m this) = store a n this"
  by (simp add: store_def)

lemma m_cache_store [simp]: "m_cache (store a n this) = m_cache this"
  by (simp add: store_def)

lemma issued_store [simp]: "issued (store a n this) = issued this"
  by (simp add: store_def)

section \<open>Requests beyond the cache budget\<close>

text \<open>
  C8. A \<open>ReadFile\<close> or \<open>WriteFile\<close> call whose size exceeds \<open>GetMaxFileCacheSize()\<close> is
  rejected: it returns 0 and leaves the drive as it was, so the cache is not changed and
  nothing is downloaded or uploaded (no request is issued).
\<close>

theorem oversized_request_rejected:
  assumes "GetMaxFileCacheSize w < size'"
  shows "ReadFile w this filePath offset size' buf doCheck = Some (0, buf, this)
         \<and> WriteFile w this filePath offset size' buf doCheck = Some (0, this)"
  using assms by (simp add: ReadFile_def WriteFile_def)

theorem oversized_request_rejected_witness:
  "GetMaxFileCacheSize example_world < 0x6400001
   \<and> ReadFile example_world example_drive ''/docs/hello.txt'' 0 0x6400001 (Some []) True
        = Some (0, Some [], example_drive)
   \<and> WriteFile example_world example_drive ''/docs/hello.txt'' 0 0x6400001 (Some []) True
        = Some (0, example_drive)"
proof -
  have h: "GetMaxFileCacheSize example_world < 0x6400001"
    by (simp add: example_world_def)
  from oversized_request_rejected [OF h] h show ?thesis by blast
qed

section \<open>Writing into an open file\<close>




section \<open>Deleting a directory\<close>

text \<open>
  C6, as the claim states it: with checking on, a resident directory that is not empty
  is deleted when \<open>recursive\<close> is true and rejected only when it is false. In the source
  the emptiness test does not look at \<open>recursive\<close>: on the non-empty directory \<open>/docs/\<close>
  a recursive, checked \<open>DeleteDir\<close> issues the HEAD request of its node lookup and no
  DELETE.
\<close>

theorem DeleteDir_recursive_counterexample:
  "Find (m_directoryTree example_drive) ''/docs/'' = Some 1
   \<and> IsDirectory (deref example_drive 1)
   \<and> \<not> IsEmpty (deref example_drive 1)
   \<and> issued (DeleteDir example_world example_drive ''/docs/'' True True)
       = [(Sync, ReqStat ''/docs/'' (Some 1400000000))]"
  by (simp add: DeleteDir_def GetNode_def example_world_def example_drive_def Find_def
        deref_def example_node_def AppendPathDelim_def issue_def Let_def)

text \<open>
  C6, amended. With checking on, \<open>DeleteDir\<close> on a resident directory submits the
  asynchronous DELETE, with the \<open>recursive\<close> flag passed on, exactly when the directory
  is empty; a directory that is not empty is rejected whatever \<open>recursive\<close> is, and the
  drive is left as the node lookup left it. With checking off the DELETE is submitted
  without looking at the node. The path is given without or with its trailing slash and
  is not empty.
\<close>

theorem DeleteDir_checked:
  "(dirPath \<noteq> []
      \<and> GetNode w this (AppendPathDelim dirPath) True = ((Some node, modified), this1)
      \<and> operator_bool (deref this1 node) \<and> IsDirectory (deref this1 node)
    \<longrightarrow> DeleteDir w this dirPath recursive True =
          (if IsEmpty (deref this1 node)
           then issue SubmitAsyncPrioritized
                  (ReqDeleteDirectory (AppendPathDelim dirPath) recursive) this1
           else this1))
   \<and> (dirPath \<noteq> []
    \<longrightarrow> DeleteDir w this dirPath recursive False =
          issue SubmitAsyncPrioritized
            (ReqDeleteDirectory (AppendPathDelim dirPath) recursive) this)"
  by (simp add: DeleteDir_def Let_def)

theorem DeleteDir_checked_witness:
  "GetNode example_world example_drive (AppendPathDelim ''/docs'') True
      = ((Some 1, False), issue Sync (ReqStat ''/docs/'' (Some 1400000000)) example_drive)
   \<and> IsDirectory (deref example_drive 1) \<and> \<not> IsEmpty (deref example_drive 1)
   \<and> issued (DeleteDir example_world example_drive ''/docs'' True True)
       = [(Sync, ReqStat ''/docs/'' (Some 1400000000))]
   \<and> GetNode example_world example_drive (AppendPathDelim ''/empty'') True
      = ((Some 3, False), issue Sync (ReqStat ''/empty/'' (Some 1400000000)) example_drive)
   \<and> IsDirectory (deref example_drive 3) \<and> IsEmpty (deref example_drive 3)
   \<and> issued (DeleteDir example_world example_drive ''/empty'' False True)
       = [(Sync, ReqStat ''/empty/'' (Some 1400000000)),
          (SubmitAsyncPrioritized, ReqDeleteDirectory ''/empty/'' False)]
   \<and> issued (DeleteDir example_world example_drive ''/docs'' True False)
       = [(SubmitAsyncPrioritized, ReqDeleteDirectory ''/docs/'' True)]"
proof -
  let ?docs = "issue Sync (ReqStat ''/docs/'' (Some 1400000000)) example_drive"
  let ?empty = "issue Sync (ReqStat ''/empty/'' (Some 1400000000)) example_drive"
  have p: "''/docs'' \<noteq> []" "''/empty'' \<noteq> []" by simp_all
  have a: "AppendPathDelim ''/docs'' = ''/docs/''" "AppendPathDelim ''/empty'' = ''/empty/''"
    by (simp_all add: AppendPathDelim_def)
  have g1: "GetNode example_world example_drive (AppendPathDelim ''/docs'') True
              = ((Some 1, False), ?docs)"
    by (simp add: a GetNode_def example_world_def example_drive_def Find_def deref_def
          example_node_def issue_def)
  have g2: "GetNode example_world example_drive (AppendPathDelim ''/empty'') True
              = ((Some 3, False), ?empty)"
    by (simp add: a GetNode_def example_world_def example_drive_def Find_def deref_def
          example_node_def issue_def)
  have n1: "operator_bool (deref ?docs 1)" "IsDirectory (deref ?docs 1)"
           "\<not> IsEmpty (deref ?docs 1)"
    by (simp_all add: example_drive_def deref_def example_node_def)
  have n3: "operator_bool (deref ?empty 3)" "IsDirectory (deref ?empty 3)"
           "IsEmpty (deref ?empty 3)"
    by (simp_all add: example_drive_def deref_def example_node_def)
  have e: "issued example_drive = []" by (simp add: example_drive_def)
  note t1 = DeleteDir_checked [where w = example_world and this = example_drive
              and dirPath = "''/docs''" and node = 1 and modified = False
              and ?this1.0 = ?docs and recursive = True]
  note t2 = DeleteDir_checked [where w = example_world and this = example_drive
              and dirPath = "''/empty''" and node = 3 and modified = False
              and ?this1.0 = ?empty and recursive = False]
  from t1 p g1 n1 e
  have r1: "issued (DeleteDir example_world example_drive ''/docs'' True True)
              = [(Sync, ReqStat ''/docs/'' (Some 1400000000))]"
    by simp
  from t1 p a e
  have r2: "issued (DeleteDir example_world example_drive ''/docs'' True False)
              = [(SubmitAsyncPrioritized, ReqDeleteDirectory ''/docs/'' True)]"
    by simp
  from t2 p g2 n3 a e
  have r3: "issued (DeleteDir example_world example_drive ''/empty'' False True)
       = [(Sync, ReqStat ''/empty/'' (Some 1400000000)),
          (SubmitAsyncPrioritized, ReqDeleteDirectory ''/empty/'' False)]"
    by simp
  from g1 g2 n1 n3 r1 r2 r3 show ?thesis by simp
qed

section \<open>Making a file\<close>

lemma S_IFMT_bit:
  "mode AND S_IFMT = k \<Longrightarrow> b AND S_IFMT = b \<Longrightarrow> mode AND b = k AND b"
  by (metis and.assoc and.commute)

lemma MakeFile_type_REG: "S_ISREG mode \<Longrightarrow> MakeFile_type mode = Some File"
  using S_IFMT_bit [of mode S_IFREG S_IFREG]
  by (simp add: S_ISREG_def MakeFile_type_def S_IFMT_def S_IFREG_def)

lemma MakeFile_type_BLK: "S_ISBLK mode \<Longrightarrow> MakeFile_type mode = Some Block"
  using S_IFMT_bit [of mode S_IFBLK S_IFREG] S_IFMT_bit [of mode S_IFBLK S_IFBLK]
  by (simp add: S_ISBLK_def MakeFile_type_def S_IFMT_def S_IFREG_def S_IFBLK_def)

lemma MakeFile_type_CHR: "S_ISCHR mode \<Longrightarrow> MakeFile_type mode = Some Block"
  using S_IFMT_bit [of mode S_IFCHR S_IFREG] S_IFMT_bit [of mode S_IFCHR S_IFBLK]
  by (simp add: S_ISCHR_def MakeFile_type_def S_IFMT_def S_IFREG_def S_IFBLK_def S_IFCHR_def)

lemma MakeFile_type_FIFO: "S_ISFIFO mode \<Longrightarrow> MakeFile_type mode = Some FIFO"
  using S_IFMT_bit [of mode S_IFIFO S_IFREG] S_IFMT_bit [of mode S_IFIFO S_IFBLK]
    S_IFMT_bit [of mode S_IFIFO S_IFCHR] S_IFMT_bit [of mode S_IFIFO S_IFIFO]
  by (simp add: S_ISFIFO_def MakeFile_type_def S_IFMT_def S_IFREG_def S_IFBLK_def S_IFCHR_def
        S_IFIFO_def)

lemma MakeFile_type_SOCK: "S_ISSOCK mode \<Longrightarrow> MakeFile_type mode = Some File"
  using S_IFMT_bit [of mode S_IFSOCK S_IFREG]
  by (simp add: S_ISSOCK_def MakeFile_type_def S_IFMT_def S_IFREG_def S_IFSOCK_def)

lemma MakeFile_File:
  "filePath \<noteq> [] \<Longrightarrow> MakeFile_type mode = Some File \<Longrightarrow>
   MakeFile w this filePath mode dev =
     (if Client_MakeFile w filePath
      then issue SubmitAsyncPrioritized (ReqStat filePath None)
             (issue Sync (ReqMakeFile filePath) this)
      else issue Sync (ReqMakeFile filePath) this)"
  by (simp add: MakeFile_def Let_def)

lemma MakeFile_special:
  "filePath \<noteq> [] \<Longrightarrow> MakeFile_type mode = Some type \<Longrightarrow> type \<noteq> File \<Longrightarrow>
   MakeFile w this filePath mode dev =
     this\<lparr> m_directoryTree :=
            DirectoryTree_Grow w
              (FileMetaData_ctor filePath 0 (time_NULL w) (time_NULL w)
                 (GetProcessEffectiveUserID w) (GetProcessEffectiveGroupID w) mode type
                 [] [] False dev)
              (m_directoryTree this) \<rparr>"
  by (simp add: MakeFile_def Let_def)

text \<open>
  C7, as the claim states it: for a mode that denotes a regular file the create request
  is followed by an asynchronous \<open>Stat\<close>. The source returns when the create fails: with
  a client whose create fails, the create is the only request issued.
\<close>

theorem MakeFile_failed_create_counterexample:
  "S_ISREG (S_IFREG OR 0x1A4)
   \<and> issued (MakeFile (example_world\<lparr> Client_MakeFile := (\<lambda>path. False) \<rparr>) example_drive
               ''/docs/new.txt'' (S_IFREG OR 0x1A4) 0)
       = [(Sync, ReqMakeFile ''/docs/new.txt'')]"
  by (simp add: S_ISREG_def S_IFREG_def S_IFMT_def MakeFile_def MakeFile_type_def
        example_world_def example_drive_def issue_def)

text \<open>
  C7, amended. For a non-empty path and a mode that denotes a regular file,
  \<open>Client->MakeFile\<close> is called, and the asynchronous \<open>Stat\<close> is submitted after it exactly
  when the create succeeded. For a mode that denotes a block, character or FIFO special
  file no request is issued and the cache is untouched: a node of a special file type is
  grown in the directory tree from metadata built of the path, size 0, the current time,
  the effective user and group, the mode and the device.
\<close>

theorem MakeFile_dispatch:
  "(filePath \<noteq> [] \<and> S_ISREG mode \<longrightarrow>
      MakeFile w this filePath mode dev =
        (if Client_MakeFile w filePath
         then issue SubmitAsyncPrioritized (ReqStat filePath None)
                (issue Sync (ReqMakeFile filePath) this)
         else issue Sync (ReqMakeFile filePath) this))
   \<and> (filePath \<noteq> [] \<and> (S_ISBLK mode \<or> S_ISCHR mode \<or> S_ISFIFO mode) \<longrightarrow>
      issued (MakeFile w this filePath mode dev) = issued this
      \<and> m_cache (MakeFile w this filePath mode dev) = m_cache this
      \<and> (\<exists>type. type \<in> {Block, Character, FIFO}
            \<and> m_directoryTree (MakeFile w this filePath mode dev) =
                DirectoryTree_Grow w
                  (FileMetaData_ctor filePath 0 (time_NULL w) (time_NULL w)
                     (GetProcessEffectiveUserID w) (GetProcessEffectiveGroupID w) mode type
                     [] [] False dev)
                  (m_directoryTree this)))"
proof (intro conjI impI)
  assume "filePath \<noteq> [] \<and> S_ISREG mode"
  then show "MakeFile w this filePath mode dev =
        (if Client_MakeFile w filePath
         then issue SubmitAsyncPrioritized (ReqStat filePath None)
                (issue Sync (ReqMakeFile filePath) this)
         else issue Sync (ReqMakeFile filePath) this)"
    by (simp add: MakeFile_File MakeFile_type_REG)
next
  assume a: "filePath \<noteq> [] \<and> (S_ISBLK mode \<or> S_ISCHR mode \<or> S_ISFIFO mode)"
  then obtain type where t: "MakeFile_type mode = Some type" "type \<in> {Block, Character, FIFO}"
    using MakeFile_type_BLK MakeFile_type_CHR MakeFile_type_FIFO by blast
  then have nf: "type \<noteq> File" by auto
  note m = MakeFile_special [OF _ t(1) nf, of filePath w this dev]
  from a m show "issued (MakeFile w this filePath mode dev) = issued this" by simp
  from a m show "m_cache (MakeFile w this filePath mode dev) = m_cache this" by simp
  from a m t(2) show "\<exists>type. type \<in> {Block, Character, FIFO}
            \<and> m_directoryTree (MakeFile w this filePath mode dev) =
                DirectoryTree_Grow w
                  (FileMetaData_ctor filePath 0 (time_NULL w) (time_NULL w)
                     (GetProcessEffectiveUserID w) (GetProcessEffectiveGroupID w) mode type
                     [] [] False dev)
                  (m_directoryTree this)"
    by auto
qed

theorem MakeFile_dispatch_witness:
  "S_ISREG (S_IFREG OR 0x1A4)
   \<and> issued (MakeFile example_world example_drive ''/docs/new.txt'' (S_IFREG OR 0x1A4) 0)
       = [(Sync, ReqMakeFile ''/docs/new.txt''),
          (SubmitAsyncPrioritized, ReqStat ''/docs/new.txt'' None)]
   \<and> S_ISFIFO (S_IFIFO OR 0x1A4)
   \<and> issued (MakeFile example_world example_drive ''/docs/pipe'' (S_IFIFO OR 0x1A4) 0) = []"
proof -
  have r: "S_ISREG (S_IFREG OR 0x1A4)" by (simp add: S_ISREG_def S_IFREG_def S_IFMT_def)
  have f: "S_ISFIFO (S_IFIFO OR 0x1A4)" by (simp add: S_ISFIFO_def S_IFIFO_def S_IFMT_def)
  have c: "Client_MakeFile example_world ''/docs/new.txt''" by (simp add: example_world_def)
  have e: "issued example_drive = []" by (simp add: example_drive_def)
  note t1 = MakeFile_dispatch [where filePath = "''/docs/new.txt''" and mode = "S_IFREG OR 0x1A4"
              and w = example_world and this = example_drive and dev = 0]
  note t2 = MakeFile_dispatch [where filePath = "''/docs/pipe''" and mode = "S_IFIFO OR 0x1A4"
              and w = example_world and this = example_drive and dev = 0]
  from t1 r c e
  have "issued (MakeFile example_world example_drive ''/docs/new.txt'' (S_IFREG OR 0x1A4) 0)
       = [(Sync, ReqMakeFile ''/docs/new.txt''),
          (SubmitAsyncPrioritized, ReqStat ''/docs/new.txt'' None)]"
    by (simp add: issue_def)
  moreover from t2 f e
  have "issued (MakeFile example_world example_drive ''/docs/pipe'' (S_IFIFO OR 0x1A4) 0) = []"
    by simp
  ultimately show ?thesis using r f by simp
qed

text \<open>
  A mode that denotes a socket is outside the amended statement. \<open>S_IFSOCK\<close> shares its
  top bit with \<open>S_IFREG\<close>, and the first test of the chain, \<open>mode & S_IFREG\<close>, is a bit test:
  it takes a socket mode for a regular file, so that the branch \<open>mode & S_IFSOCK\<close> is
  never reached and the create request goes to the object store.
\<close>

lemma MakeFile_socket_mode:
  "filePath \<noteq> [] \<Longrightarrow> S_ISSOCK mode \<Longrightarrow>
   MakeFile w this filePath mode dev =
     (if Client_MakeFile w filePath
      then issue SubmitAsyncPrioritized (ReqStat filePath None)
             (issue Sync (ReqMakeFile filePath) this)
      else issue Sync (ReqMakeFile filePath) this)"
  by (simp add: MakeFile_File MakeFile_type_SOCK)

lemma MakeFile_socket_mode_example:
  "S_ISSOCK (S_IFSOCK OR 0x1A4)
   \<and> issued (MakeFile example_world example_drive ''/run.sock'' (S_IFSOCK OR 0x1A4) 0)
       = [(Sync, ReqMakeFile ''/run.sock''), (SubmitAsyncPrioritized, ReqStat ''/run.sock'' None)]"
  by (simp add: S_ISSOCK_def S_IFSOCK_def S_IFREG_def S_IFMT_def MakeFile_def MakeFile_type_def
        example_world_def example_drive_def issue_def)

section \<open>Reading past the end of a file\<close>









text \<open>
  An offset beyond the end of the file is outside the amended statement: the source
  computes \<open>fileSize - offset\<close> in \<open>uint64_t\<close> with no test of \<open>offset\<close> against
  \<open>fileSize\<close>, so the clamped size wraps around instead of stopping at 0.
\<close>

lemma offset_beyond_EOF_wraps:
  fixes fileSize offset :: "64 word"
  assumes "fileSize < offset"
  shows "unat (fileSize - offset) = 2 ^ 64 - (unat offset - unat fileSize)"
proof -
  from assms have lt: "unat fileSize < unat offset" by (simp add: word_less_nat_alt)
  have "unat offset < 2 ^ 64" using unsigned_less [of offset, where 'a = nat] by simp
  with lt show ?thesis by (simp add: unat_sub_if_size word_size)
qed

section \<open>The file size under writes\<close>

lemma GetNode_sizes:
  assumes "\<And>path since tree a.
             GetFileSize (Nodes (snd (snd (Client_Stat w path since tree))) a)
               = GetFileSize (Nodes tree a)"
  shows "GetFileSize (deref (snd (GetNode w this path updateIfDirectory)) a)
           = GetFileSize (deref this a)"
proof (cases "path = []")
  case True
  then show ?thesis by (simp add: GetNode_def)
next
  case False
  show ?thesis
  proof (cases "Find (m_directoryTree this) path")
    case None
    with False assms [of path None "m_directoryTree this" a] show ?thesis
      by (auto simp add: GetNode_def Let_def deref_def split: prod.splits option.splits)
  next
    case (Some b)
    with False assms [of path "Some (GetMTime (deref this b))" "m_directoryTree this" a]
    show ?thesis
      by (auto simp add: GetNode_def Let_def deref_def split: prod.splits option.splits)
  qed
qed

lemma WriteFile_size_step:
  assumes "WriteFile w this filePath offset size' buf doCheck = Some (n, this')"
  shows "\<exists>seen. (seen = this \<or> seen = snd (GetNode w this filePath False))
           \<and> (\<forall>a. GetFileSize (deref seen a) \<le> GetFileSize (deref this' a)
                  \<and> (GetFileSize (deref this' a) = GetFileSize (deref seen a)
                       \<or> GetFileSize (deref this' a) = offset + size'))"
proof (cases "doCheck \<and> (filePath = [] \<or> buf = None) \<or> GetMaxFileCacheSize w < size'")
  case True
  with assms have "this' = this" by (auto simp add: WriteFile_def split: if_splits)
  then show ?thesis by auto
next
  case False
  obtain res this1 where g: "GetNode w this filePath False = (res, this1)"
    by (cases "GetNode w this filePath False")
  have "\<forall>a. GetFileSize (deref this1 a) \<le> GetFileSize (deref this' a)
                  \<and> (GetFileSize (deref this' a) = GetFileSize (deref this1 a)
                       \<or> GetFileSize (deref this' a) = offset + size')"
    using assms False g
    by (auto simp add: WriteFile_def Let_def split: option.splits if_splits prod.splits)
  with g show ?thesis by auto
qed


lemma WriteFile_size_step_kept:
  assumes keeps: "\<And>path since tree a.
             GetFileSize (Nodes (snd (snd (Client_Stat w path since tree))) a)
               = GetFileSize (Nodes tree a)"
    and "WriteFile w this filePath offset size' buf doCheck = Some (n, this')"
  shows "GetFileSize (deref this a) \<le> GetFileSize (deref this' a)"
proof -
  from WriteFile_size_step [OF assms(2)] obtain seen
    where s: "seen = this \<or> seen = snd (GetNode w this filePath False)"
      and m: "GetFileSize (deref seen a) \<le> GetFileSize (deref this' a)"
    by blast
  from s GetNode_sizes [of w this filePath False a, OF keeps]
  have "GetFileSize (deref seen a) = GetFileSize (deref this a)" by auto
  with m show ?thesis by simp
qed

lemma WriteFile_calls_sizes:
  assumes keeps: "\<And>path since tree a.
             GetFileSize (Nodes (snd (snd (Client_Stat w path since tree))) a)
               = GetFileSize (Nodes tree a)"
  shows "WriteFile_calls w this filePath calls = Some this' \<Longrightarrow>
         GetFileSize (deref this a) \<le> GetFileSize (deref this' a)"
proof (induction calls arbitrary: this)
  case Nil
  then show ?case by simp
next
  case (Cons call calls)
  obtain offset size' buf doCheck where c: "call = (offset, size', buf, doCheck)"
    by (cases call)
  from Cons.prems c obtain n mid
    where w1: "WriteFile w this filePath offset size' buf doCheck = Some (n, mid)"
      and w2: "WriteFile_calls w mid filePath calls = Some this'"
    by (auto split: option.splits)
  from WriteFile_size_step_kept [OF keeps w1]
  have "GetFileSize (deref this a) \<le> GetFileSize (deref mid a)" .
  also from Cons.IH [OF w2] have "\<dots> \<le> GetFileSize (deref this' a)" .
  finally show ?case .
qed

lemma WriteFile_returns:
  "doCheck \<Longrightarrow> \<exists>n this'. WriteFile w this filePath offset size' buf doCheck = Some (n, this')"
  by (auto simp add: WriteFile_def Let_def split: option.splits prod.splits)

text \<open>
  C10, as the claim states it: every \<open>WriteFile\<close> call leaves the file size of the node
  unchanged or raises it to \<open>offset + size\<close>, and none decreases it. The call begins with
  \<open>GetNode\<close>, whose HEAD request lets the client bring the metadata of the node up to
  date (``call GetNode to update meta'', as the source says where it renames): when the
  object in the store has shrunk to 3 bytes, a write of one byte at offset 0 leaves the
  five-byte file with size 3.
\<close>

theorem WriteFile_size_decreases_counterexample:
  "GetFileSize (deref example_drive 2) = 5
   \<and> map_option (\<lambda>(n, this'). (n, GetFileSize (deref this' 2)))
        (WriteFile
           (example_world
              \<lparr> Client_Stat := (\<lambda>path since tree.
                    (True, True,
                     tree\<lparr> Nodes := (Nodes tree)(2 := (Nodes tree 2)\<lparr> GetFileSize := 3 \<rparr>) \<rparr>)) \<rparr>)
           example_drive ''/docs/hello.txt'' 0 1 (Some [9]) True)
       = Some (1, 3)"
  by (simp add: WriteFile_def GetNode_def example_world_def example_drive_def Find_def
        deref_def example_node_def issue_def example_Write_def store_def Let_def)

text \<open>
  C10, amended. Measured from the drive as the call finds it (as it is, or as the HEAD
  request of its node lookup has left it), a \<open>WriteFile\<close> call that returns leaves the
  size of every node unchanged or, for the node written, raised to \<open>offset + size\<close>, and
  decreases none. Over a sequence of calls on a path the size of every node at the end
  is at least its size at the start, provided the client's HEAD requests do not
  themselves change recorded sizes. With checking on, every call returns.
\<close>

theorem WriteFile_size_never_decreases:
  "(WriteFile w this filePath offset size' buf doCheck = Some (n, this') \<longrightarrow>
      (\<exists>seen. (seen = this \<or> seen = snd (GetNode w this filePath False))
         \<and> (\<forall>a. GetFileSize (deref seen a) \<le> GetFileSize (deref this' a)
                \<and> (GetFileSize (deref this' a) = GetFileSize (deref seen a)
                     \<or> GetFileSize (deref this' a) = offset + size'))))
   \<and> ((\<forall>path since tree a.
           GetFileSize (Nodes (snd (snd (Client_Stat w path since tree))) a)
             = GetFileSize (Nodes tree a))
        \<and> WriteFile_calls w this filePath calls = Some final \<longrightarrow>
        (\<forall>a. GetFileSize (deref this a) \<le> GetFileSize (deref final a)))
   \<and> (doCheck \<longrightarrow>
        (\<exists>n this'. WriteFile w this filePath offset size' buf doCheck = Some (n, this')))"
proof (intro conjI impI allI)
  assume "WriteFile w this filePath offset size' buf doCheck = Some (n, this')"
  then show "\<exists>seen. (seen = this \<or> seen = snd (GetNode w this filePath False))
         \<and> (\<forall>a. GetFileSize (deref seen a) \<le> GetFileSize (deref this' a)
                \<and> (GetFileSize (deref this' a) = GetFileSize (deref seen a)
                     \<or> GetFileSize (deref this' a) = offset + size'))"
    by (rule WriteFile_size_step)
next
  fix a
  assume h: "(\<forall>path since tree a.
           GetFileSize (Nodes (snd (snd (Client_Stat w path since tree))) a)
             = GetFileSize (Nodes tree a))
        \<and> WriteFile_calls w this filePath calls = Some final"
  then have keeps: "\<And>path since tree a.
             GetFileSize (Nodes (snd (snd (Client_Stat w path since tree))) a)
               = GetFileSize (Nodes tree a)"
    by blast
  from h WriteFile_calls_sizes [OF keeps]
  show "GetFileSize (deref this a) \<le> GetFileSize (deref final a)" by blast
next
  assume doCheck
  then show "\<exists>n this'. WriteFile w this filePath offset size' buf doCheck = Some (n, this')"
    by (rule WriteFile_returns)
qed


theorem WriteFile_size_never_decreases_witness:
  "(\<forall>path since tree a.
       GetFileSize (Nodes (snd (snd (Client_Stat example_world path since tree))) a)
         = GetFileSize (Nodes tree a))
   \<and> GetFileSize (deref example_drive 2) = 5
   \<and> map_option (\<lambda>(n, this'). GetFileSize (deref this' 2))
        (WriteFile example_world example_drive ''/docs/hello.txt'' 3 4 (Some [1, 2, 3, 4]) True)
       = Some (3 + 4)
   \<and> map_option (\<lambda>final. GetFileSize (deref final 2))
        (WriteFile_calls example_world example_drive ''/docs/hello.txt''
           [(3, 4, Some [1, 2, 3, 4], True), (1, 2, Some [7, 7], True), (0, 1, Some [9], False)])
       = Some 7
   \<and> (5 :: 64 word) \<le> 7"
proof -
  let ?calls = "[(3, 4, Some [1, 2, 3, 4], True), (1, 2, Some [7, 7], True),
                 (0, 1, Some [9], False)] :: (off_t \<times> size_t \<times> buffer \<times> bool) list"
  have keeps: "\<forall>path since tree a.
       GetFileSize (Nodes (snd (snd (Client_Stat example_world path since tree))) a)
         = GetFileSize (Nodes tree a)"
    by (simp add: example_world_def)
  have s: "GetFileSize (deref example_drive 2) = 5"
    by (simp add: example_drive_def deref_def example_node_def)
  have one: "map_option (\<lambda>(n, this'). GetFileSize (deref this' 2))
        (WriteFile example_world example_drive ''/docs/hello.txt'' 3 4 (Some [1, 2, 3, 4]) True)
       = Some (3 + 4)"
    by code_simp
  have many: "map_option (\<lambda>final. GetFileSize (deref final 2))
        (WriteFile_calls example_world example_drive ''/docs/hello.txt'' ?calls) = Some 7"
    by code_simp
  then obtain final
    where f: "WriteFile_calls example_world example_drive ''/docs/hello.txt'' ?calls = Some final"
      and f7: "GetFileSize (deref final 2) = 7"
    by auto
  from WriteFile_size_never_decreases
         [where w = example_world and this = example_drive
            and filePath = "''/docs/hello.txt''" and calls = ?calls and final = final]
       keeps f
  have "GetFileSize (deref example_drive 2) \<le> GetFileSize (deref final 2)" by blast
  with s f7 have "(5 :: 64 word) \<le> 7" by simp
  with keeps s one many show ?thesis by blast
qed

end
